theory Spec2Isabelle
  imports
    Main
    "HOL-Library.Sublist"
    "HOL-Library.Multiset"
    "HOL-Library.Char_ord"
    "HOL-Library.List_Lexorder"
begin

section \<open>The volume commands of tsuru/client/volume.go\<close>

text \<open>
  A shallow embedding of the volume command handlers: the filter of \<open>volume list\<close>
  (its query string and its client-side pass), the three renderers (list, info, plan
  list) and the request/response cycle of the three reading commands.

  Go strings are byte strings: \<open>string\<close> here, compared byte by byte
  (\<open>HOL-Library.Char_ord\<close>) and lexicographically (\<open>HOL-Library.List_Lexorder\<close>), which
  is the order of Go's \<open><\<close> on strings and of \<open>sort.Strings\<close>.

  A Go map that the code only ranges over is an association list: the order of the
  list is the order in which that run of the program iterates the map, which Go leaves
  unspecified. Nothing proved below depends on that order unless it says so.
\<close>

subsection \<open>Data model\<close>

text \<open>An \<open>error\<close> value returned by a collaborator (transport, URL builder, decoder).\<close>

datatype error = Error string

text \<open>
  The types of package \<open>volumeTypes\<close> are declared outside this file; the records list
  the fields that volume.go reads or writes. The option values of a plan are printed with
  the verb \<open>%v\<close> only, so their type is left open (\<open>'o\<close>); the options of a volume are
  strings (\<open>map[string]string(c.opt)\<close>, line 64).
\<close>

record 'o VolumePlan =
  Name :: string
  Opts :: "(string \<times> 'o) list"

record VolumeBindID =
  App :: string
  MountPoint :: string

record VolumeBind =
  ID :: VolumeBindID
  ReadOnly :: bool

record 'o Volume =
  Name :: string
  Pool :: string
  Plan :: "'o VolumePlan"
  TeamOwner :: string
  Binds :: "VolumeBind list"
  Opts :: "(string \<times> string) list"

text \<open>\<open>type volumeFilter struct\<close> (lines 152-157).\<close>

record volumeFilter =
  name :: string
  pool :: string
  plan :: string
  teamOwner :: string

text \<open>
  \<open>type VolumeList struct\<close> (lines 176-181) without the lazily built flag set; the field
  \<open>filter\<close> is \<open>filter_v\<close> here, since \<open>filter\<close> is the list function of HOL.
\<close>

record VolumeList =
  filter_v :: volumeFilter
  simplified :: bool
  json :: bool

subsection \<open>Library functions of Go used by the filter\<close>

text \<open>
  \<open>strings.Contains(s, substr)\<close>: whether \<open>substr\<close> occurs in \<open>s\<close> as a contiguous run of
  bytes; the empty string occurs in every string.
\<close>

primrec Contains :: "string \<Rightarrow> string \<Rightarrow> bool" where
  "Contains [] substr = (substr = [])"
| "Contains (c # s) substr = (prefix substr (c # s) \<or> Contains s substr)"

text \<open>
  \<open>url.Values\<close> is \<open>map[string][]string\<close>; \<open>Set\<close> replaces the values of a key by the one
  given.
\<close>

type_synonym Values = "string \<rightharpoonup> string list"

definition Values_Set :: "Values \<Rightarrow> string \<Rightarrow> string \<Rightarrow> Values" where
  "Values_Set vs key val = vs(key \<mapsto> [val])"

subsection \<open>The filter of volume list\<close>

text \<open>\<open>func (f *volumeFilter) queryString()\<close> (lines 159-174); its error is always nil.\<close>

definition queryString :: "volumeFilter \<Rightarrow> Values \<times> error option" where
  "queryString f =
    (let result = Map.empty;
         result = (if name f \<noteq> [] then Values_Set result ''name'' (name f) else result);
         result = (if teamOwner f \<noteq> [] then Values_Set result ''teamOwner'' (teamOwner f)
                   else result);
         result = (if pool f \<noteq> [] then Values_Set result ''pool'' (pool f) else result);
         result = (if plan f \<noteq> [] then Values_Set result ''plan'' (plan f) else result)
     in (result, None))"

text \<open>
  The body of the loop of \<open>clientSideFilter\<close> (lines 251-267): the flag \<open>insert\<close> starts
  true and each of the four tests may clear it.
\<close>

definition clientSideFilter_insert :: "volumeFilter \<Rightarrow> 'o Volume \<Rightarrow> bool" where
  "clientSideFilter_insert f v =
    (let ins = True;
         ins = (if name f \<noteq> [] \<and> \<not> Contains (Volume.Name v) (name f) then False else ins);
         ins = (if pool f \<noteq> [] \<and> Pool v \<noteq> pool f then False else ins);
         ins = (if plan f \<noteq> [] \<and> VolumePlan.Name (Plan v) \<noteq> plan f then False else ins);
         ins = (if teamOwner f \<noteq> [] \<and> TeamOwner v \<noteq> teamOwner f then False else ins)
     in ins)"

text \<open>
  The loop itself (lines 250-271): one pass over \<open>volumes\<close>, appending to \<open>result\<close>.
\<close>

fun clientSideFilter_loop ::
  "volumeFilter \<Rightarrow> 'o Volume list \<Rightarrow> 'o Volume list \<Rightarrow> 'o Volume list" where
  "clientSideFilter_loop f [] result = result"
| "clientSideFilter_loop f (v # volumes) result =
     clientSideFilter_loop f volumes
       (if clientSideFilter_insert f v then result @ [v] else result)"

text \<open>\<open>func (c *VolumeList) clientSideFilter\<close> (lines 247-274).\<close>

definition clientSideFilter :: "VolumeList \<Rightarrow> 'o Volume list \<Rightarrow> 'o Volume list" where
  "clientSideFilter c volumes = clientSideFilter_loop (filter_v c) volumes []"

subsection \<open>Output and formatting\<close>

text \<open>
  A table of package tablecli, as the handlers build it. Its layout (\<open>String()\<close>) belongs
  to the library: the model keeps the table that is handed over for printing.
\<close>

type_synonym Row = "string list"

record Table =
  Headers :: Row
  LineSeparator :: bool
  rows :: "Row list"

definition NewTable :: Table where
  "NewTable = \<lparr>Headers = [], LineSeparator = False, rows = []\<rparr>"

definition AddRow :: "Table \<Rightarrow> Row \<Rightarrow> Table" where
  "AddRow t r = t\<lparr>rows := rows t @ [r]\<rparr>"

text \<open>
  The two sorts of tablecli, as the specification describes them: \<open>Sort()\<close> orders the
  rows lexicographically by the first column, ties by the subsequent columns;
  \<open>SortByColumn\<close> orders them by the cells of the columns given, in that order. Go's
  \<open>sort.Sort\<close> does not say in which order rows with equal keys come out; the model keeps
  them in their order of insertion, and the theorems on \<open>SortByColumn\<close> below only use
  that the result is a sorted rearrangement. The handlers give every row of a table the
  same number of cells, and only sort by columns that exist.
\<close>

definition Table_Sort :: "Table \<Rightarrow> Table" where
  "Table_Sort t = t\<lparr>rows := sort (rows t)\<rparr>"

definition SortByColumn :: "nat list \<Rightarrow> Table \<Rightarrow> Table" where
  "SortByColumn columns t = t\<lparr>rows := sort_key (\<lambda>r. map (\<lambda>c. r ! c) columns) (rows t)\<rparr>"

text \<open>\<open>strings.Join(elems, sep)\<close>.\<close>

fun Join :: "string list \<Rightarrow> string \<Rightarrow> string" where
  "Join [] sep = []"
| "Join [x] sep = x"
| "Join (x # y # ys) sep = x @ sep @ Join (y # ys) sep"

text \<open>\<open>fmt.Fprintln\<close> of one string writes it followed by a newline.\<close>

definition Fprintln :: "string \<Rightarrow> string" where
  "Fprintln s = s @ ''\<newline>''"

text \<open>
  What a handler writes to \<open>ctx.Stdout\<close>, write by write: text, a table printed through
  \<open>String()\<close>, or a value printed by \<open>formatter.JSON\<close>.
\<close>

datatype 'o json_value = Volumes "'o Volume list" | OneVolume "'o Volume"

datatype 'o chunk = Text string | TableString Table | JSON "'o json_value"

subsection \<open>Collaborators\<close>

text \<open>\<open>http.StatusNoContent\<close>.\<close>

definition StatusNoContent :: nat where
  "StatusNoContent = 204"

record Request =
  Method :: string
  URL :: string
  ReqBody :: "string option"

text \<open>
  The response of the server: its status code and what \<open>io.ReadAll(rsp.Body)\<close> returns
  when the handler reads the body.
\<close>

record Response =
  StatusCode :: nat
  Body :: "error + string"

text \<open>
  The collaborators of the handlers, which the handlers take as given: the URL builder
  \<open>cmd.GetURLVersion\<close>, the failure of \<open>http.NewRequest\<close>, \<open>url.Values.Encode\<close>, the
  transport \<open>client.Do\<close>, \<open>json.Unmarshal\<close> at the three target types, the error returned
  by the JSON encoder behind \<open>formatter.JSON\<close>, and the verb \<open>%v\<close> of package fmt on a plan
  option.
\<close>

record 'o env =
  GetURLVersion :: "string \<Rightarrow> string \<Rightarrow> error + string"
  NewRequest_error :: "string \<Rightarrow> string \<Rightarrow> error option"
  Values_Encode :: "Values \<Rightarrow> string"
  client_Do :: "Request \<Rightarrow> error + Response"
  Unmarshal_Volumes :: "string \<Rightarrow> error + 'o Volume list"
  Unmarshal_Volume :: "string \<Rightarrow> error + 'o Volume"
  Unmarshal_Plans :: "string \<Rightarrow> error + (string \<times> 'o VolumePlan list) list"
  JSON_Encode_error :: "'o json_value \<Rightarrow> error option"
  Sprintf_v :: "'o \<Rightarrow> string"

definition NewRequest :: "'o env \<Rightarrow> string \<Rightarrow> string \<Rightarrow> string option \<Rightarrow> error + Request" where
  "NewRequest env method url body =
    (case NewRequest_error env method url of
       Some err \<Rightarrow> Inl err
     | None \<Rightarrow> Inr \<lparr>Method = method, URL = url, ReqBody = body\<rparr>)"

text \<open>
  Modelled from the spec: \<open>formatter.JSON\<close> of package tsuru/formatter, which is not in
  volume.go. The spec has it "emit the exact decoded structure, pretty-printed": the value
  handed over is written as one JSON document, and the encoder's error is returned.
\<close>

definition formatter_JSON :: "'o env \<Rightarrow> 'o json_value \<Rightarrow> 'o chunk list \<times> error option" where
  "formatter_JSON env data = ([JSON data], JSON_Encode_error env data)"

text \<open>
  The calls a handler makes to the server, to the reader of the response body and to the
  JSON decoder, in the order in which it makes them.
\<close>

datatype call = Call_Do Request | Call_ReadAll | Call_Unmarshal string

text \<open>What a run of a handler leaves behind: the output, the calls and the error returned.\<close>

record 'o outcome =
  Stdout :: "'o chunk list"
  Calls :: "call list"
  Err :: "error option"

subsection \<open>Renderers\<close>

text \<open>\<open>func (c *VolumeList) render\<close> (lines 276-302).\<close>

definition VolumeList_render ::
  "'o env \<Rightarrow> VolumeList \<Rightarrow> 'o Volume list \<Rightarrow> 'o chunk list \<times> error option" where
  "VolumeList_render env c volumes =
    (if simplified c then
       (foldl (\<lambda>out v. out @ [Text (Fprintln (Volume.Name v))]) [] volumes, None)
     else if VolumeList.json c then
       formatter_JSON env (Volumes volumes)
     else
       (let tbl = NewTable;
            tbl = tbl\<lparr>Headers := [''Name'', ''Plan'', ''Pool'', ''Team'']\<rparr>;
            tbl = tbl\<lparr>LineSeparator := True\<rparr>;
            tbl = foldl (\<lambda>tbl v. AddRow tbl
                    [Volume.Name v, VolumePlan.Name (Plan v), Pool v, TeamOwner v]) tbl volumes;
            tbl = Table_Sort tbl
        in ([TableString tbl], None)))"

text \<open>
  \<open>func (c *VolumeInfo) render\<close> (lines 363-401). The options of the volume are strings,
  which \<open>%v\<close> prints as they are.
\<close>

definition VolumeInfo_render :: "'o env \<Rightarrow> 'o Volume \<Rightarrow> 'o chunk list \<times> error option" where
  "VolumeInfo_render env volume =
    (let out = [Text (''Name: '' @ Volume.Name volume @ ''\<newline>Plan: ''
                  @ VolumePlan.Name (Plan volume) @ ''\<newline>Pool: '' @ Pool volume
                  @ ''\<newline>Team: '' @ TeamOwner volume @ ''\<newline>'')];
         bindTable = NewTable;
         bindTable = bindTable\<lparr>Headers := [''App'', ''MountPoint'', ''Mode'']\<rparr>;
         bindTable = bindTable\<lparr>LineSeparator := True\<rparr>;
         bindTable = foldl (\<lambda>tbl b.
             let mode = ''rw'';
                 mode = (if ReadOnly b then ''ro'' else mode)
             in AddRow tbl [App (ID b), MountPoint (ID b), mode]) bindTable (Binds volume);
         out = out @ [Text ''\<newline>Binds:\<newline>''];
         out = out @ [TableString bindTable];
         planOptsTable = NewTable;
         planOptsTable = planOptsTable\<lparr>Headers := [''Key'', ''Value'']\<rparr>;
         planOptsTable = planOptsTable\<lparr>LineSeparator := True\<rparr>;
         planOptsTable = foldl (\<lambda>tbl (k, v). AddRow tbl [k, Sprintf_v env v])
                           planOptsTable (VolumePlan.Opts (Plan volume));
         planOptsTable = Table_Sort planOptsTable;
         out = out @ [Text ''\<newline>Plan Opts:\<newline>''];
         out = out @ [TableString planOptsTable];
         optsTable = NewTable;
         optsTable = optsTable\<lparr>Headers := [''Key'', ''Value'']\<rparr>;
         optsTable = optsTable\<lparr>LineSeparator := True\<rparr>;
         optsTable = foldl (\<lambda>tbl (k, v). AddRow tbl [k, v]) optsTable (Volume.Opts volume);
         optsTable = Table_Sort optsTable;
         out = out @ [Text ''\<newline>Opts:\<newline>''];
         out = out @ [TableString optsTable]
     in (out, None))"

text \<open>
  The cell of the column Opts (lines 449-453 and 457): the options formatted as
  \<open>"%s: %v"\<close>, sorted by \<open>sort.Strings\<close> and joined by newlines.
\<close>

definition plan_opts_cell :: "'o env \<Rightarrow> 'o VolumePlan \<Rightarrow> string" where
  "plan_opts_cell env p =
    (let opts = foldl (\<lambda>opts (k, v). opts @ [k @ '': '' @ Sprintf_v env v]) []
                  (VolumePlan.Opts p);
         opts = sort opts
     in Join opts ''\<newline>'')"

text \<open>\<open>func (c *VolumePlansList) render\<close> (lines 443-464).\<close>

definition VolumePlansList_render ::
  "'o env \<Rightarrow> (string \<times> 'o VolumePlan list) list \<Rightarrow> 'o chunk list \<times> error option" where
  "VolumePlansList_render env plans =
    (let tbl = NewTable;
         tbl = tbl\<lparr>Headers := [''Plan'', ''Provisioner'', ''Opts'']\<rparr>;
         tbl = tbl\<lparr>LineSeparator := True\<rparr>;
         tbl = foldl (\<lambda>tbl (provisioner, provPlans).
                 foldl (\<lambda>tbl p. AddRow tbl
                   [VolumePlan.Name p, provisioner, plan_opts_cell env p]) tbl provPlans)
                 tbl plans;
         tbl = SortByColumn [0, 1] tbl
     in ([TableString tbl], None))"

subsection \<open>Handlers\<close>

text \<open>A handler that returns the error \<open>err\<close> after the calls \<open>cs\<close>, having written nothing.\<close>

definition failed :: "call list \<Rightarrow> error \<Rightarrow> 'o outcome" where
  "failed cs err = \<lparr>Stdout = [], Calls = cs, Err = Some err\<rparr>"

text \<open>\<open>func (c *VolumeList) Run\<close> (lines 211-245).\<close>

definition VolumeList_Run :: "'o env \<Rightarrow> VolumeList \<Rightarrow> 'o outcome" where
  "VolumeList_Run env c =
    (case queryString (filter_v c) of
       (qs, Some err) \<Rightarrow> failed [] err
     | (qs, None) \<Rightarrow>
    (case GetURLVersion env ''1.4'' (''/volumes?'' @ Values_Encode env qs) of
       Inl err \<Rightarrow> failed [] err
     | Inr u \<Rightarrow>
    (case NewRequest env ''GET'' u None of
       Inl err \<Rightarrow> failed [] err
     | Inr request \<Rightarrow>
    (case client_Do env request of
       Inl err \<Rightarrow> failed [Call_Do request] err
     | Inr rsp \<Rightarrow>
       if StatusCode rsp = StatusNoContent then
         \<lparr>Stdout = [Text (Fprintln ''No volumes available.'')],
          Calls = [Call_Do request], Err = None\<rparr>
       else
    (case Body rsp of
       Inl err \<Rightarrow> failed [Call_Do request, Call_ReadAll] err
     | Inr data \<Rightarrow>
    (case Unmarshal_Volumes env data of
       Inl err \<Rightarrow> failed [Call_Do request, Call_ReadAll, Call_Unmarshal data] err
     | Inr volumes \<Rightarrow>
       (let volumes = clientSideFilter c volumes;
            (out, err) = VolumeList_render env c volumes
        in \<lparr>Stdout = out,
            Calls = [Call_Do request, Call_ReadAll, Call_Unmarshal data],
            Err = err\<rparr>)))))))"

text \<open>\<open>type VolumeInfo struct\<close> (lines 304-307), without the flag set.\<close>

record VolumeInfo =
  json :: bool

text \<open>
  \<open>func (c *VolumeInfo) Run\<close> (lines 327-361). \<open>volumeName\<close> is \<open>ctx.Args[0]\<close>, which the
  command declares as mandatory (\<open>MinArgs: 1\<close>).
\<close>

definition VolumeInfo_Run :: "'o env \<Rightarrow> VolumeInfo \<Rightarrow> string \<Rightarrow> 'o outcome" where
  "VolumeInfo_Run env c volumeName =
    (case GetURLVersion env ''1.4'' (''/volumes/'' @ volumeName) of
       Inl err \<Rightarrow> failed [] err
     | Inr u \<Rightarrow>
    (case NewRequest env ''GET'' u None of
       Inl err \<Rightarrow> failed [] err
     | Inr request \<Rightarrow>
    (case client_Do env request of
       Inl err \<Rightarrow> failed [Call_Do request] err
     | Inr rsp \<Rightarrow>
       if StatusCode rsp = StatusNoContent then
         \<lparr>Stdout = [Text (Fprintln ''No volumes available.'')],
          Calls = [Call_Do request], Err = None\<rparr>
       else
    (case Body rsp of
       Inl err \<Rightarrow> failed [Call_Do request, Call_ReadAll] err
     | Inr data \<Rightarrow>
    (case Unmarshal_Volume env data of
       Inl err \<Rightarrow> failed [Call_Do request, Call_ReadAll, Call_Unmarshal data] err
     | Inr volume \<Rightarrow>
       (let (out, err) = (if VolumeInfo.json c then formatter_JSON env (OneVolume volume)
                          else VolumeInfo_render env volume)
        in \<lparr>Stdout = out,
            Calls = [Call_Do request, Call_ReadAll, Call_Unmarshal data],
            Err = err\<rparr>))))))"

text \<open>
  \<open>func (c *VolumePlansList) Run\<close> (lines 415-441). The variable \<open>plans\<close> is the nil map
  unless the body is decoded into it; ranging over the nil map visits nothing.
\<close>

definition VolumePlansList_Run :: "'o env \<Rightarrow> 'o outcome" where
  "VolumePlansList_Run env =
    (case GetURLVersion env ''1.4'' ''/volumeplans'' of
       Inl err \<Rightarrow> failed [] err
     | Inr u \<Rightarrow>
    (case NewRequest env ''GET'' u None of
       Inl err \<Rightarrow> failed [] err
     | Inr request \<Rightarrow>
    (case client_Do env request of
       Inl err \<Rightarrow> failed [Call_Do request] err
     | Inr rsp \<Rightarrow>
       if StatusCode rsp \<noteq> StatusNoContent then
    (case Body rsp of
       Inl err \<Rightarrow> failed [Call_Do request, Call_ReadAll] err
     | Inr data \<Rightarrow>
    (case Unmarshal_Plans env data of
       Inl err \<Rightarrow> failed [Call_Do request, Call_ReadAll, Call_Unmarshal data] err
     | Inr plans \<Rightarrow>
       (let (out, err) = VolumePlansList_render env plans
        in \<lparr>Stdout = out,
            Calls = [Call_Do request, Call_ReadAll, Call_Unmarshal data],
            Err = err\<rparr>)))
       else
         (let plans = [];
              (out, err) = VolumePlansList_render env plans
          in \<lparr>Stdout = out, Calls = [Call_Do request], Err = err\<rparr>))))"

subsection \<open>Example values\<close>

text \<open>
  The two volumes and the filters of the scenarios of the specification, with plan
  options that are strings.
\<close>

definition ex_data1 :: "string Volume" where
  "ex_data1 = \<lparr>Volume.Name = ''data1'', Pool = ''p1'',
     Plan = \<lparr>VolumePlan.Name = ''nfs'', VolumePlan.Opts = []\<rparr>,
     TeamOwner = ''t1'', Binds = [], Volume.Opts = []\<rparr>"

definition ex_data2 :: "string Volume" where
  "ex_data2 = \<lparr>Volume.Name = ''data2'', Pool = ''p2'',
     Plan = \<lparr>VolumePlan.Name = ''nfs'', VolumePlan.Opts = []\<rparr>,
     TeamOwner = ''t2'', Binds = [], Volume.Opts = []\<rparr>"

definition ex_filter :: volumeFilter where
  "ex_filter = \<lparr>name = ''ata'', pool = ''p1'', plan = ''nfs'', teamOwner = ''t1''\<rparr>"

definition ex_pool_filter :: volumeFilter where
  "ex_pool_filter = \<lparr>name = [], pool = ''p1'', plan = [], teamOwner = []\<rparr>"

definition ex_json_list :: VolumeList where
  "ex_json_list = \<lparr>filter_v = ex_filter, simplified = False, json = True\<rparr>"

text \<open>
  A plan-list response with two provisioners, of which one has two plans and one plan has
  two options, none of them in sorted order; a volume with binds and options; and
  collaborators that succeed:
  the server answers 200, the decoders return the values above, and \<open>%v\<close> prints a string
  as it is. \<open>ex_Encode\<close> is \<open>url.Values.Encode\<close> on the four keys of the filter, for
  values that need no escaping.
\<close>

definition ex_plans :: "(string \<times> string VolumePlan list) list" where
  "ex_plans =
     [(''kubernetes'',
        [\<lparr>VolumePlan.Name = ''nfs'',
          VolumePlan.Opts = [(''size'', ''10''), (''access'', ''rwx'')]\<rparr>,
         \<lparr>VolumePlan.Name = ''ebs'', VolumePlan.Opts = []\<rparr>]),
      (''docker'',
        [\<lparr>VolumePlan.Name = ''nfs'', VolumePlan.Opts = [(''size'', ''10'')]\<rparr>])]"

definition ex_bound :: "string Volume" where
  "ex_bound = \<lparr>Volume.Name = ''data3'', Pool = ''p1'',
     Plan = \<lparr>VolumePlan.Name = ''nfs'',
             VolumePlan.Opts = [(''size'', ''10''), (''access'', ''rwx'')]\<rparr>,
     TeamOwner = ''t1'',
     Binds = [\<lparr>ID = \<lparr>App = ''web'', MountPoint = ''/mnt''\<rparr>, ReadOnly = True\<rparr>,
              \<lparr>ID = \<lparr>App = ''api'', MountPoint = ''/data''\<rparr>, ReadOnly = False\<rparr>],
     Volume.Opts = [(''b'', ''2''), (''a'', ''1'')]\<rparr>"

definition ex_Encode :: "Values \<Rightarrow> string" where
  "ex_Encode vs = Join (concat (map
      (\<lambda>k. case vs k of None \<Rightarrow> [] | Some xs \<Rightarrow> map (\<lambda>x. k @ ''='' @ x) xs)
      [''name'', ''plan'', ''pool'', ''teamOwner''])) ''&''"

definition ex_env :: "string env" where
  "ex_env = \<lparr>
     GetURLVersion = (\<lambda>version path. Inr (''http://tsuru.example/'' @ version @ path)),
     NewRequest_error = (\<lambda>method url. None),
     Values_Encode = ex_Encode,
     client_Do = (\<lambda>request. Inr \<lparr>StatusCode = 200, Body = Inr ''(body)''\<rparr>),
     Unmarshal_Volumes = (\<lambda>data. Inr [ex_data1, ex_data2]),
     Unmarshal_Volume = (\<lambda>data. Inr ex_data1),
     Unmarshal_Plans = (\<lambda>data. Inr ex_plans),
     JSON_Encode_error = (\<lambda>data. None),
     Sprintf_v = (\<lambda>v. v)\<rparr>"

definition ex_quiet_list :: VolumeList where
  "ex_quiet_list = \<lparr>filter_v = ex_pool_filter, simplified = True, json = True\<rparr>"

definition ex_table_list :: VolumeList where
  "ex_table_list = \<lparr>filter_v = ex_pool_filter, simplified = False, json = False\<rparr>"

text \<open>
  A server that answers 204 to every request, with a body that cannot be read and
  decoders that fail; an info command without \<open>--json\<close>; the request that the list
  command sends for \<open>ex_filter\<close>.
\<close>

definition ex_no_content_env :: "string env" where
  "ex_no_content_env = ex_env\<lparr>
     client_Do := (\<lambda>request. Inr \<lparr>StatusCode = 204, Body = Inl (Error ''EOF'')\<rparr>),
     Unmarshal_Volumes := (\<lambda>data. Inl (Error ''unexpected end of JSON input'')),
     Unmarshal_Volume := (\<lambda>data. Inl (Error ''unexpected end of JSON input'')),
     Unmarshal_Plans := (\<lambda>data. Inl (Error ''unexpected end of JSON input''))\<rparr>"

definition ex_info :: VolumeInfo where
  "ex_info = \<lparr>VolumeInfo.json = False\<rparr>"

definition ex_list_request :: Request where
  "ex_list_request = \<lparr>Method = ''GET'',
     URL = ''http://tsuru.example/1.4/volumes?name=ata&plan=nfs&pool=p1&teamOwner=t1'',
     ReqBody = None\<rparr>"

section \<open>Properties\<close>

subsection \<open>Helper lemmas\<close>

lemma Contains_iff_sublist: "Contains s substr \<longleftrightarrow> sublist substr s"
  by (induction s) (simp_all add: sublist_Cons_right)

lemma Contains_iff: "Contains s substr \<longleftrightarrow> (\<exists>p q. s = p @ substr @ q)"
  by (simp add: Contains_iff_sublist sublist_def)

lemma clientSideFilter_insert_iff:
  "clientSideFilter_insert f v \<longleftrightarrow>
     (name f \<noteq> [] \<longrightarrow> Contains (Volume.Name v) (name f)) \<and>
     (pool f \<noteq> [] \<longrightarrow> Pool v = pool f) \<and>
     (plan f \<noteq> [] \<longrightarrow> VolumePlan.Name (Plan v) = plan f) \<and>
     (teamOwner f \<noteq> [] \<longrightarrow> TeamOwner v = teamOwner f)"
  by (auto simp: clientSideFilter_insert_def)

lemma clientSideFilter_loop_filter:
  "clientSideFilter_loop f volumes result =
     result @ filter (clientSideFilter_insert f) volumes"
  by (induction volumes arbitrary: result) simp_all

lemma clientSideFilter_filter:
  "clientSideFilter c volumes = filter (clientSideFilter_insert (filter_v c)) volumes"
  by (simp add: clientSideFilter_def clientSideFilter_loop_filter)

lemma ex_Contains_case: "Contains ''data1'' ''ata'' \<and> \<not> Contains ''data1'' ''ATA''"
  by simp

lemma ex_insert_data1: "clientSideFilter_insert ex_filter ex_data1"
  by (simp add: clientSideFilter_insert_def ex_filter_def ex_data1_def)

lemma ex_insert_data2: "\<not> clientSideFilter_insert ex_filter ex_data2"
  by (simp add: clientSideFilter_insert_def ex_filter_def ex_data2_def)

lemma ex_json_list_filter: "filter_v ex_json_list = ex_filter"
  by (simp add: ex_json_list_def)

lemma foldl_append_each: "foldl (\<lambda>acc x. acc @ [g x]) acc xs = acc @ map g xs"
  by (induction xs arbitrary: acc) simp_all

lemma foldl_AddRow: "foldl (\<lambda>tbl x. AddRow tbl (g x)) t xs = t\<lparr>rows := rows t @ map g xs\<rparr>"
  by (induction xs arbitrary: t) (simp_all add: AddRow_def)

lemma foldl_AddRow_nested:
  "foldl (\<lambda>tbl x. foldl (\<lambda>tbl y. AddRow tbl (g x y)) tbl (h x)) t xs =
     t\<lparr>rows := rows t @ concat (map (\<lambda>x. map (g x) (h x)) xs)\<rparr>"
  by (induction xs arbitrary: t) (simp_all add: foldl_AddRow)

lemma Join_concat:
  "Join xs sep = (case xs of [] \<Rightarrow> [] | x # ys \<Rightarrow> x @ concat (map (\<lambda>y. sep @ y) ys))"
  by (induction xs sep rule: Join.induct) simp_all

lemma ex_Join: "Join [''a'', ''b'', ''c''] '', '' = ''a, b, c'' \<and> Join [] '', '' = []"
  by simp

lemma sorted_wrt_mset_unique:
  assumes "mset xs = mset ys" and "sorted_wrt R xs" and "sorted_wrt R ys"
    and "\<And>a b. a \<in> set ys \<Longrightarrow> b \<in> set ys \<Longrightarrow> R a b \<Longrightarrow> R b a \<Longrightarrow> a = b"
  shows "xs = ys"
  using assms
proof (induction xs arbitrary: ys)
  case Nil
  then show ?case by simp
next
  case (Cons x xs)
  from Cons.prems(1) obtain y ys' where ys: "ys = y # ys'"
    by (cases ys) auto
  have sets: "set (x # xs) = set ys"
    using Cons.prems(1) by (metis mset_eq_setD)
  have "x = y"
  proof (rule ccontr)
    assume neq: "x \<noteq> y"
    with sets ys have "x \<in> set ys'" "y \<in> set xs" by auto
    with Cons.prems(2,3) ys have "R y x" "R x y" by auto
    moreover have "x \<in> set ys" "y \<in> set ys" using sets ys by auto
    ultimately have "x = y" using Cons.prems(4) by blast
    with neq show False by simp
  qed
  moreover from this Cons.prems ys have "xs = ys'"
    by (intro Cons.IH) auto
  ultimately show ?case using ys by simp
qed

lemma ex_sorted_opts: "sort [''size: 10'', ''access: rwx''] = [''access: rwx'', ''size: 10'']"
  by simp

lemma plan_opts_cell_eq:
  "plan_opts_cell env p =
     Join (sort (map (\<lambda>(k, v). k @ '': '' @ Sprintf_v env v) (VolumePlan.Opts p))) ''\<newline>''"
  by (simp add: plan_opts_cell_def case_prod_unfold foldl_append_each)

lemma sorted_rows_first_column:
  "sorted rs \<Longrightarrow> \<forall>r \<in> set rs. r \<noteq> [] \<Longrightarrow> sorted (map (\<lambda>r. r ! 0) rs)"
proof (induction rs)
  case Nil
  then show ?case by simp
next
  case (Cons r rs)
  have "r ! 0 \<le> s ! 0" if "s \<in> set rs" for s
  proof -
    from that Cons.prems have "r \<le> s" "r \<noteq> []" "s \<noteq> []" by auto
    then show ?thesis by (cases r; cases s) auto
  qed
  with Cons show ?case by simp
qed

lemma sorted_by_two_columns:
  "sorted (map (\<lambda>r. map (\<lambda>c. r ! c) [0, 1]) rs) \<Longrightarrow>
     sorted_wrt (\<lambda>r s. r ! 0 < s ! 0 \<or> (r ! 0 = s ! 0 \<and> r ! 1 \<le> s ! 1)) rs"
proof -
  assume "sorted (map (\<lambda>r. map (\<lambda>c. r ! c) [0, 1]) rs)"
  then have "sorted_wrt (\<lambda>r s. [r ! 0, r ! 1] \<le> [s ! 0, s ! 1]) rs"
    by (simp only: sorted_wrt_map list.map)
  then show ?thesis
    by (rule sorted_wrt_mono_rel [rotated]) auto
qed

lemma VolumePlansList_render_eq:
  "VolumePlansList_render env plans =
    ([TableString \<lparr>Headers = [''Plan'', ''Provisioner'', ''Opts''], LineSeparator = True,
        rows = sort_key (\<lambda>r. map (\<lambda>c. r ! c) [0, 1])
          (concat (map (\<lambda>(provisioner, provPlans).
             map (\<lambda>p. [VolumePlan.Name p, provisioner, plan_opts_cell env p]) provPlans) plans))\<rparr>],
     None)"
  by (simp add: VolumePlansList_render_def case_prod_unfold foldl_AddRow_nested
      NewTable_def SortByColumn_def)

lemma VolumeList_render_table_eq:
  "\<not> simplified c \<Longrightarrow> \<not> VolumeList.json c \<Longrightarrow> VolumeList_render env c volumes =
    ([TableString \<lparr>Headers = [''Name'', ''Plan'', ''Pool'', ''Team''], LineSeparator = True,
        rows = sort (map (\<lambda>v. [Volume.Name v, VolumePlan.Name (Plan v), Pool v, TeamOwner v])
                 volumes)\<rparr>], None)"
  by (simp add: VolumeList_render_def foldl_AddRow NewTable_def Table_Sort_def)

lemma VolumeInfo_render_eq:
  "VolumeInfo_render env volume =
    ([Text (''Name: '' @ Volume.Name volume @ ''\<newline>Plan: ''
            @ VolumePlan.Name (Plan volume) @ ''\<newline>Pool: '' @ Pool volume
            @ ''\<newline>Team: '' @ TeamOwner volume @ ''\<newline>''),
      Text ''\<newline>Binds:\<newline>'',
      TableString \<lparr>Headers = [''App'', ''MountPoint'', ''Mode''], LineSeparator = True,
        rows = map (\<lambda>b. [App (ID b), MountPoint (ID b), if ReadOnly b then ''ro'' else ''rw''])
                 (Binds volume)\<rparr>,
      Text ''\<newline>Plan Opts:\<newline>'',
      TableString \<lparr>Headers = [''Key'', ''Value''], LineSeparator = True,
        rows = sort (map (\<lambda>(k, v). [k, Sprintf_v env v]) (VolumePlan.Opts (Plan volume)))\<rparr>,
      Text ''\<newline>Opts:\<newline>'',
      TableString \<lparr>Headers = [''Key'', ''Value''], LineSeparator = True,
        rows = sort (map (\<lambda>(k, v). [k, v]) (Volume.Opts volume))\<rparr>],
     None)"
  by (simp add: VolumeInfo_render_def case_prod_unfold foldl_AddRow NewTable_def Table_Sort_def
      if_distrib [of "\<lambda>m. [_, _, m]"] cong: if_cong)

lemma Table_eqI:
  "Headers t = h \<Longrightarrow> LineSeparator t = l \<Longrightarrow> rows t = r \<Longrightarrow>
     t = \<lparr>Headers = h, LineSeparator = l, rows = r\<rparr>"
  by (cases t) simp

lemma ex_sorted_rows:
  "sort [[''data2'', ''nfs'', ''p2'', ''t2''], [''data1'', ''nfs'', ''p1'', ''t1'']] =
     [[''data1'', ''nfs'', ''p1'', ''t1''], [''data2'', ''nfs'', ''p2'', ''t2'']]"
  by simp

lemma ex_info_bound:
  "VolumeInfo_render ex_env ex_bound =
     ([Text ''Name: data3\<newline>Plan: nfs\<newline>Pool: p1\<newline>Team: t1\<newline>'',
       Text ''\<newline>Binds:\<newline>'',
       TableString \<lparr>Headers = [''App'', ''MountPoint'', ''Mode''], LineSeparator = True,
         rows = [[''web'', ''/mnt'', ''ro''], [''api'', ''/data'', ''rw'']]\<rparr>,
       Text ''\<newline>Plan Opts:\<newline>'',
       TableString \<lparr>Headers = [''Key'', ''Value''], LineSeparator = True,
         rows = [[''access'', ''rwx''], [''size'', ''10'']]\<rparr>,
       Text ''\<newline>Opts:\<newline>'',
       TableString \<lparr>Headers = [''Key'', ''Value''], LineSeparator = True,
         rows = [[''a'', ''1''], [''b'', ''2'']]\<rparr>], None)"
  unfolding VolumeInfo_render_eq by (simp add: ex_bound_def ex_env_def)

lemma queryString_pair: "queryString f = (fst (queryString f), None)"
  by (simp add: queryString_def Let_def)

lemma VolumeList_Run_no_content:
  assumes "GetURLVersion env ''1.4''
             (''/volumes?'' @ Values_Encode env (fst (queryString (filter_v c)))) = Inr u"
    and "NewRequest env ''GET'' u None = Inr request"
    and "client_Do env request = Inr rsp"
    and "StatusCode rsp = 204"
  shows "VolumeList_Run env c =
           \<lparr>Stdout = [Text ''No volumes available.\<newline>''],
            Calls = [Call_Do request], Err = None\<rparr>"
proof -
  obtain qs where q: "queryString (filter_v c) = (qs, None)" "fst (queryString (filter_v c)) = qs"
    using queryString_pair [of "filter_v c"] by simp
  show ?thesis
    using assms unfolding q VolumeList_Run_def
    by (simp add: q StatusNoContent_def Fprintln_def)
qed

lemma VolumeList_Run_decoded:
  assumes "GetURLVersion env ''1.4''
             (''/volumes?'' @ Values_Encode env (fst (queryString (filter_v c)))) = Inr u"
    and "NewRequest env ''GET'' u None = Inr request"
    and "client_Do env request = Inr rsp"
    and "StatusCode rsp \<noteq> 204"
    and "Body rsp = Inr data"
    and "Unmarshal_Volumes env data = Inr volumes"
  shows "VolumeList_Run env c =
           \<lparr>Stdout = fst (VolumeList_render env c (clientSideFilter c volumes)),
            Calls = [Call_Do request, Call_ReadAll, Call_Unmarshal data],
            Err = snd (VolumeList_render env c (clientSideFilter c volumes))\<rparr>"
proof -
  obtain qs where q: "queryString (filter_v c) = (qs, None)" "fst (queryString (filter_v c)) = qs"
    using queryString_pair [of "filter_v c"] by simp
  show ?thesis
    using assms unfolding q VolumeList_Run_def
    by (simp add: q StatusNoContent_def case_prod_unfold Let_def)
qed

lemma VolumeInfo_Run_no_content:
  assumes "GetURLVersion env ''1.4'' (''/volumes/'' @ volumeName) = Inr u"
    and "NewRequest env ''GET'' u None = Inr request"
    and "client_Do env request = Inr rsp"
    and "StatusCode rsp = 204"
  shows "VolumeInfo_Run env c volumeName =
           \<lparr>Stdout = [Text ''No volumes available.\<newline>''],
            Calls = [Call_Do request], Err = None\<rparr>"
  using assms unfolding VolumeInfo_Run_def
  by (simp add: StatusNoContent_def Fprintln_def)

lemma VolumePlansList_Run_no_content:
  assumes "GetURLVersion env ''1.4'' ''/volumeplans'' = Inr u"
    and "NewRequest env ''GET'' u None = Inr request"
    and "client_Do env request = Inr rsp"
    and "StatusCode rsp = 204"
  shows "VolumePlansList_Run env =
           \<lparr>Stdout = [TableString \<lparr>Headers = [''Plan'', ''Provisioner'', ''Opts''],
               LineSeparator = True, rows = []\<rparr>],
            Calls = [Call_Do request], Err = None\<rparr>"
  using assms unfolding VolumePlansList_Run_def
  by (simp add: StatusNoContent_def VolumePlansList_render_eq)

lemma ex_list_path:
  "''/volumes?'' @ ex_Encode (fst (queryString ex_filter)) =
     ''/volumes?name=ata&plan=nfs&pool=p1&teamOwner=t1''"
  by (simp add: ex_Encode_def queryString_def Values_Set_def ex_filter_def)

lemma ex_env_list_exchange:
  "GetURLVersion ex_env ''1.4''
     (''/volumes?'' @ Values_Encode ex_env (fst (queryString (filter_v ex_json_list)))) =
     Inr ''http://tsuru.example/1.4/volumes?name=ata&plan=nfs&pool=p1&teamOwner=t1''"
  "NewRequest ex_env ''GET''
     ''http://tsuru.example/1.4/volumes?name=ata&plan=nfs&pool=p1&teamOwner=t1'' None =
     Inr ex_list_request"
  "client_Do ex_env ex_list_request = Inr \<lparr>StatusCode = 200, Body = Inr ''(body)''\<rparr>"
  "Unmarshal_Volumes ex_env ''(body)'' = Inr [ex_data1, ex_data2]"
proof -
  have "Values_Encode ex_env = ex_Encode" "GetURLVersion ex_env =
      (\<lambda>version path. Inr (''http://tsuru.example/'' @ version @ path))"
    by (simp_all add: ex_env_def)
  then show "GetURLVersion ex_env ''1.4''
     (''/volumes?'' @ Values_Encode ex_env (fst (queryString (filter_v ex_json_list)))) =
     Inr ''http://tsuru.example/1.4/volumes?name=ata&plan=nfs&pool=p1&teamOwner=t1''"
    by (simp only: ex_json_list_filter ex_list_path) simp
qed (simp_all add: ex_env_def NewRequest_def ex_list_request_def)

lemma ex_env_render_json:
  "VolumeList_render ex_env ex_json_list vs = ([JSON (Volumes vs)], None)"
  by (simp add: VolumeList_render_def formatter_JSON_def ex_json_list_def ex_env_def)

lemma ex_data1_neq_data2: "ex_data1 \<noteq> ex_data2"
  by (simp add: ex_data1_def ex_data2_def)

lemma ex_no_content_env_exchange:
  "GetURLVersion ex_no_content_env version path =
     Inr (''http://tsuru.example/'' @ version @ path)"
  "NewRequest ex_no_content_env method url body =
     Inr \<lparr>Method = method, URL = url, ReqBody = body\<rparr>"
  "client_Do ex_no_content_env request = Inr \<lparr>StatusCode = 204, Body = Inl (Error ''EOF'')\<rparr>"
  by (simp_all add: ex_no_content_env_def ex_env_def NewRequest_def)

lemma VolumeList_Run_sends:
  assumes "GetURLVersion env ''1.4''
             (''/volumes?'' @ Values_Encode env (fst (queryString (filter_v c)))) = Inr u"
    and "NewRequest env ''GET'' u None = Inr request"
  shows "\<exists>rest. Calls (VolumeList_Run env c) = Call_Do request # rest"
proof -
  obtain qs where q: "queryString (filter_v c) = (qs, None)" "fst (queryString (filter_v c)) = qs"
    using queryString_pair [of "filter_v c"] by simp
  show ?thesis
    using assms unfolding q VolumeList_Run_def
    by (simp add: q failed_def case_prod_unfold Let_def split: sum.split)
qed

lemma ex_pool_path:
  "''/volumes?'' @ ex_Encode (fst (queryString ex_pool_filter)) = ''/volumes?pool=p1''"
  by (simp add: ex_Encode_def queryString_def Values_Set_def ex_pool_filter_def)

lemma ex_pool_scenario:
  "map Volume.Name (clientSideFilter ex_table_list [ex_data1, ex_data2]) = [''data1'']"
  by (simp add: clientSideFilter_filter clientSideFilter_insert_def ex_table_list_def
      ex_pool_filter_def ex_data1_def ex_data2_def)

subsection \<open>The client-side filter\<close>

text \<open>
  C1. The client-side filter keeps a volume \<open>v\<close> of its input if and only if the four
  comparisons hold together: a non-empty \<open>name\<close> criterion occurs in \<open>v.Name\<close> as a
  contiguous, byte-for-byte (hence case-sensitive) substring; a non-empty \<open>pool\<close>, \<open>plan\<close>
  or \<open>teamOwner\<close> criterion equals \<open>v.Pool\<close>, \<open>v.Plan.Name\<close> or \<open>v.TeamOwner\<close>. An empty
  criterion holds of every volume.
\<close>

theorem clientSideFilter_keeps_iff:
  "v \<in> set (clientSideFilter c volumes) \<longleftrightarrow>
     v \<in> set volumes \<and>
     (name (filter_v c) \<noteq> [] \<longrightarrow> (\<exists>p q. Volume.Name v = p @ name (filter_v c) @ q)) \<and>
     (pool (filter_v c) \<noteq> [] \<longrightarrow> Pool v = pool (filter_v c)) \<and>
     (plan (filter_v c) \<noteq> [] \<longrightarrow> VolumePlan.Name (Plan v) = plan (filter_v c)) \<and>
     (teamOwner (filter_v c) \<noteq> [] \<longrightarrow> TeamOwner v = teamOwner (filter_v c))"
  by (simp add: clientSideFilter_filter clientSideFilter_insert_iff Contains_iff)

theorem clientSideFilter_keeps_iff_witness:
  "ex_data1 \<in> set (clientSideFilter ex_json_list [ex_data1, ex_data2]) \<and>
   ex_data1 \<in> set [ex_data1, ex_data2] \<and>
   name (filter_v ex_json_list) \<noteq> [] \<and>
   (\<exists>p q. Volume.Name ex_data1 = p @ name (filter_v ex_json_list) @ q) \<and>
   pool (filter_v ex_json_list) \<noteq> [] \<and> Pool ex_data1 = pool (filter_v ex_json_list) \<and>
   plan (filter_v ex_json_list) \<noteq> [] \<and>
   VolumePlan.Name (Plan ex_data1) = plan (filter_v ex_json_list) \<and>
   teamOwner (filter_v ex_json_list) \<noteq> [] \<and>
   TeamOwner ex_data1 = teamOwner (filter_v ex_json_list) \<and>
   ex_data2 \<notin> set (clientSideFilter ex_json_list [ex_data1, ex_data2])"
proof -
  have kept: "ex_data1 \<in> set (clientSideFilter ex_json_list [ex_data1, ex_data2])"
    by (simp add: clientSideFilter_filter ex_insert_data1 ex_insert_data2 ex_json_list_filter)
  have dropped: "Pool ex_data2 \<noteq> pool (filter_v ex_json_list)"
    by (simp add: ex_data2_def ex_json_list_def ex_filter_def)
  have nonempty: "pool (filter_v ex_json_list) \<noteq> []" "name (filter_v ex_json_list) \<noteq> []"
     "plan (filter_v ex_json_list) \<noteq> []" "teamOwner (filter_v ex_json_list) \<noteq> []"
    by (simp_all add: ex_json_list_def ex_filter_def)
  from kept clientSideFilter_keeps_iff [of ex_data1 ex_json_list "[ex_data1, ex_data2]"]
    clientSideFilter_keeps_iff [of ex_data2 ex_json_list "[ex_data1, ex_data2]"]
    dropped nonempty
  show ?thesis by blast
qed

text \<open>
  C6. The client-side pass returns exactly the volumes of its input for which the loop
  body sets \<open>insert\<close>, in the order of the input: the result is a subsequence of the input,
  no volume occurs in it more often than in the input, and the pass over a concatenation
  is the concatenation of the passes (each volume is decided once, on its own).
\<close>

theorem clientSideFilter_subsequence:
  "clientSideFilter c volumes = filter (clientSideFilter_insert (filter_v c)) volumes \<and>
   subseq (clientSideFilter c volumes) volumes \<and>
   mset (clientSideFilter c volumes) \<subseteq># mset volumes \<and>
   clientSideFilter c (volumes @ rest) = clientSideFilter c volumes @ clientSideFilter c rest"
  by (simp add: clientSideFilter_filter multiset_filter_subset)

theorem clientSideFilter_subsequence_witness:
  "clientSideFilter ex_json_list [ex_data2, ex_data1, ex_data2, ex_data1] =
     [ex_data1, ex_data1]"
  using clientSideFilter_subsequence
    [of ex_json_list "[ex_data2, ex_data1, ex_data2, ex_data1]" "[]", THEN conjunct1]
  by (simp add: ex_insert_data1 ex_insert_data2 ex_json_list_filter)

subsection \<open>The query string\<close>

text \<open>
  C9. The query values built for the list request have exactly the keys of the non-empty
  criteria among \<open>name\<close>, \<open>pool\<close>, \<open>plan\<close> and \<open>teamOwner\<close>, each with the criterion as its
  single value; an empty criterion contributes no key, and no error is returned. The
  request that the list command sends to the server is the GET request for the URL built
  from \<open>/volumes?\<close> and the encoding of these values.
\<close>

theorem queryString_exact:
  "snd (queryString f) = None \<and>
   dom (fst (queryString f)) =
     {k. (k = ''name'' \<and> name f \<noteq> []) \<or> (k = ''pool'' \<and> pool f \<noteq> []) \<or>
         (k = ''plan'' \<and> plan f \<noteq> []) \<or> (k = ''teamOwner'' \<and> teamOwner f \<noteq> [])} \<and>
   (name f \<noteq> [] \<longrightarrow> fst (queryString f) ''name'' = Some [name f]) \<and>
   (pool f \<noteq> [] \<longrightarrow> fst (queryString f) ''pool'' = Some [pool f]) \<and>
   (plan f \<noteq> [] \<longrightarrow> fst (queryString f) ''plan'' = Some [plan f]) \<and>
   (teamOwner f \<noteq> [] \<longrightarrow> fst (queryString f) ''teamOwner'' = Some [teamOwner f]) \<and>
   (filter_v c = f \<and>
    GetURLVersion env ''1.4'' (''/volumes?'' @ Values_Encode env (fst (queryString f))) = Inr u \<and>
    NewRequest env ''GET'' u None = Inr request \<longrightarrow>
      (\<exists>rest. Calls (VolumeList_Run env c) = Call_Do request # rest))"
proof -
  have k: "''name'' \<noteq> ''teamOwner''" "''name'' \<noteq> ''pool''" "''name'' \<noteq> ''plan''"
    "''teamOwner'' \<noteq> ''pool''" "''teamOwner'' \<noteq> ''plan''" "''pool'' \<noteq> ''plan''"
    by simp_all
  have q: "fst (queryString f) = (\<lambda>k.
     if k = ''plan'' \<and> plan f \<noteq> [] then Some [plan f]
     else if k = ''pool'' \<and> pool f \<noteq> [] then Some [pool f]
     else if k = ''teamOwner'' \<and> teamOwner f \<noteq> [] then Some [teamOwner f]
     else if k = ''name'' \<and> name f \<noteq> [] then Some [name f]
     else None)"
    unfolding queryString_def Values_Set_def Let_def by (rule ext) simp
  have s: "snd (queryString f) = None"
    by (simp add: queryString_def Let_def)
  have sent: "filter_v c = f \<and>
    GetURLVersion env ''1.4'' (''/volumes?'' @ Values_Encode env (fst (queryString f))) = Inr u \<and>
    NewRequest env ''GET'' u None = Inr request \<longrightarrow>
      (\<exists>rest. Calls (VolumeList_Run env c) = Call_Do request # rest)"
    using VolumeList_Run_sends [of env c u request] by blast
  have entries: "dom (fst (queryString f)) =
     {k. (k = ''name'' \<and> name f \<noteq> []) \<or> (k = ''pool'' \<and> pool f \<noteq> []) \<or>
         (k = ''plan'' \<and> plan f \<noteq> []) \<or> (k = ''teamOwner'' \<and> teamOwner f \<noteq> [])} \<and>
   (name f \<noteq> [] \<longrightarrow> fst (queryString f) ''name'' = Some [name f]) \<and>
   (pool f \<noteq> [] \<longrightarrow> fst (queryString f) ''pool'' = Some [pool f]) \<and>
   (plan f \<noteq> [] \<longrightarrow> fst (queryString f) ''plan'' = Some [plan f]) \<and>
   (teamOwner f \<noteq> [] \<longrightarrow> fst (queryString f) ''teamOwner'' = Some [teamOwner f])"
    unfolding q using k by (auto simp: dom_def)
  from s entries sent show ?thesis by (elim conjE) (intro conjI; assumption)
qed

theorem queryString_exact_witness:
  "pool ex_pool_filter \<noteq> [] \<and> name ex_pool_filter = [] \<and>
   fst (queryString ex_pool_filter) ''pool'' = Some [''p1''] \<and>
   dom (fst (queryString ex_pool_filter)) = {''pool''} \<and>
   (\<exists>rest. Calls (VolumeList_Run ex_env ex_table_list) =
      Call_Do \<lparr>Method = ''GET'', URL = ''http://tsuru.example/1.4/volumes?pool=p1'',
               ReqBody = None\<rparr> # rest)"
proof -
  have f: "name ex_pool_filter = []" "pool ex_pool_filter = ''p1''"
    "plan ex_pool_filter = []" "teamOwner ex_pool_filter = []"
    by (simp_all add: ex_pool_filter_def)
  have c: "filter_v ex_table_list = ex_pool_filter"
    by (simp add: ex_table_list_def)
  have e: "Values_Encode ex_env = ex_Encode"
    by (simp add: ex_env_def)
  have u: "GetURLVersion ex_env ''1.4''
      (''/volumes?'' @ Values_Encode ex_env (fst (queryString ex_pool_filter))) =
      Inr ''http://tsuru.example/1.4/volumes?pool=p1''"
    unfolding e ex_pool_path by (simp add: ex_env_def)
  have r: "NewRequest ex_env ''GET'' ''http://tsuru.example/1.4/volumes?pool=p1'' None =
      Inr \<lparr>Method = ''GET'', URL = ''http://tsuru.example/1.4/volumes?pool=p1'',
           ReqBody = None\<rparr>"
    by (simp add: NewRequest_def ex_env_def)
  note inst = queryString_exact [of ex_pool_filter ex_table_list ex_env
      "''http://tsuru.example/1.4/volumes?pool=p1''"
      "\<lparr>Method = ''GET'', URL = ''http://tsuru.example/1.4/volumes?pool=p1'',
        ReqBody = None\<rparr>"]
  have sent: "\<exists>rest. Calls (VolumeList_Run ex_env ex_table_list) =
      Call_Do \<lparr>Method = ''GET'', URL = ''http://tsuru.example/1.4/volumes?pool=p1'',
               ReqBody = None\<rparr> # rest"
    using inst [THEN conjunct2, THEN conjunct2, THEN conjunct2, THEN conjunct2,
        THEN conjunct2, THEN conjunct2, rule_format, OF conjI [OF c conjI [OF u r]]] .
  have vals: "fst (queryString ex_pool_filter) ''pool'' = Some [''p1''] \<and>
     dom (fst (queryString ex_pool_filter)) = {''pool''}"
    using inst unfolding f by auto
  from sent vals f show ?thesis by simp
qed


subsection \<open>The renderers\<close>

text \<open>
  C5. The renderer of the list command chooses its output by ordered precedence. With
  \<open>simplified\<close> set, whatever \<open>json\<close> is, it writes the names, one per line, in the order
  of its input, and nothing is printed as JSON; otherwise with \<open>json\<close> set it hands the
  volumes to the JSON formatter; otherwise it prints the table with the columns Name, Plan,
  Pool and Team.
\<close>

theorem VolumeList_render_precedence:
  "(simplified c \<longrightarrow>
      VolumeList_render env c volumes =
        (map (\<lambda>v. Text (Volume.Name v @ ''\<newline>'')) volumes, None)) \<and>
   (simplified c \<and> VolumeList.json c \<longrightarrow>
      (\<forall>data. JSON data \<notin> set (fst (VolumeList_render env c volumes)))) \<and>
   (\<not> simplified c \<and> VolumeList.json c \<longrightarrow>
      VolumeList_render env c volumes =
        ([JSON (Volumes volumes)], JSON_Encode_error env (Volumes volumes))) \<and>
   (\<not> simplified c \<and> \<not> VolumeList.json c \<longrightarrow>
      VolumeList_render env c volumes =
        ([TableString \<lparr>Headers = [''Name'', ''Plan'', ''Pool'', ''Team''],
            LineSeparator = True,
            rows = sort (map (\<lambda>v. [Volume.Name v, VolumePlan.Name (Plan v), Pool v,
                                     TeamOwner v]) volumes)\<rparr>], None))"
proof -
  have names: "simplified c \<Longrightarrow> VolumeList_render env c volumes =
      (map (\<lambda>v. Text (Volume.Name v @ ''\<newline>'')) volumes, None)"
    by (simp add: VolumeList_render_def foldl_append_each Fprintln_def)
  have js: "\<not> simplified c \<Longrightarrow> VolumeList.json c \<Longrightarrow> VolumeList_render env c volumes =
      ([JSON (Volumes volumes)], JSON_Encode_error env (Volumes volumes))"
    by (simp add: VolumeList_render_def formatter_JSON_def)
  have nojson: "simplified c \<Longrightarrow> JSON data \<notin> set (fst (VolumeList_render env c volumes))"
    for data
    by (auto simp: names)
  from names js nojson VolumeList_render_table_eq [of c env volumes]
  show ?thesis by blast
qed

theorem VolumeList_render_precedence_witness:
  "simplified ex_quiet_list \<and> VolumeList.json ex_quiet_list \<and>
   VolumeList_render ex_env ex_quiet_list [ex_data2, ex_data1] =
     ([Text ''data2\<newline>'', Text ''data1\<newline>''], None) \<and>
   \<not> simplified ex_json_list \<and> VolumeList.json ex_json_list \<and>
   VolumeList_render ex_env ex_json_list [ex_data2, ex_data1] =
     ([JSON (Volumes [ex_data2, ex_data1])], None) \<and>
   \<not> simplified ex_table_list \<and> \<not> VolumeList.json ex_table_list \<and>
   VolumeList_render ex_env ex_table_list [ex_data2, ex_data1] =
     ([TableString \<lparr>Headers = [''Name'', ''Plan'', ''Pool'', ''Team''], LineSeparator = True,
         rows = [[''data1'', ''nfs'', ''p1'', ''t1''], [''data2'', ''nfs'', ''p2'', ''t2'']]\<rparr>],
      None)"
proof -
  have flags: "simplified ex_quiet_list" "VolumeList.json ex_quiet_list"
    "\<not> simplified ex_json_list" "VolumeList.json ex_json_list"
    "\<not> simplified ex_table_list" "\<not> VolumeList.json ex_table_list"
    by (simp_all add: ex_quiet_list_def ex_json_list_def ex_table_list_def)
  have fields: "Volume.Name ex_data1 = ''data1''" "Volume.Name ex_data2 = ''data2''"
    "VolumePlan.Name (Plan ex_data1) = ''nfs''" "VolumePlan.Name (Plan ex_data2) = ''nfs''"
    "Pool ex_data1 = ''p1''" "Pool ex_data2 = ''p2''"
    "TeamOwner ex_data1 = ''t1''" "TeamOwner ex_data2 = ''t2''"
    by (simp_all add: ex_data1_def ex_data2_def)
  have enc: "JSON_Encode_error ex_env d = None" for d
    by (simp add: ex_env_def)
  have a: "VolumeList_render ex_env ex_quiet_list [ex_data2, ex_data1] =
     ([Text ''data2\<newline>'', Text ''data1\<newline>''], None)"
    using VolumeList_render_precedence [of ex_quiet_list ex_env "[ex_data2, ex_data1]"] flags
    by (simp add: fields)
  have b: "VolumeList_render ex_env ex_json_list [ex_data2, ex_data1] =
     ([JSON (Volumes [ex_data2, ex_data1])], None)"
    using VolumeList_render_precedence [of ex_json_list ex_env "[ex_data2, ex_data1]"] flags
    by (simp add: enc)
  have c: "VolumeList_render ex_env ex_table_list [ex_data2, ex_data1] =
     ([TableString \<lparr>Headers = [''Name'', ''Plan'', ''Pool'', ''Team''], LineSeparator = True,
         rows = [[''data1'', ''nfs'', ''p1'', ''t1''], [''data2'', ''nfs'', ''p2'', ''t2'']]\<rparr>],
      None)"
    using VolumeList_render_precedence [of ex_table_list ex_env "[ex_data2, ex_data1]"] flags
    by (simp only: simp_thms list.map fields ex_sorted_rows)
  from a b c flags show ?thesis by simp
qed

text \<open>
  C7. The renderer of the plan list prints one table with the columns Plan, Provisioner
  and Opts and the line separator on. Its rows are, as a multiset, one row per plan of
  each provisioner: the plan's name, the provisioner, and the cell of the options. The
  cell is empty for a plan without options; otherwise it is the first of the options
  formatted as \<open>key: value\<close> and sorted as strings, followed by each further one after
  a newline. The rows are in ascending order of (Plan, Provisioner).
\<close>

theorem VolumePlansList_render_table:
  "\<exists>tbl. VolumePlansList_render env plans = ([TableString tbl], None) \<and>
     Headers tbl = [''Plan'', ''Provisioner'', ''Opts''] \<and> LineSeparator tbl \<and>
     mset (rows tbl) = mset (concat (map (\<lambda>(provisioner, provPlans).
        map (\<lambda>p. [VolumePlan.Name p, provisioner,
                   (case sort (map (\<lambda>(k, v). k @ '': '' @ Sprintf_v env v)
                                (VolumePlan.Opts p)) of
                      [] \<Rightarrow> []
                    | opt # opts \<Rightarrow> opt @ concat (map (\<lambda>o'. ''\<newline>'' @ o') opts))])
          provPlans) plans)) \<and>
     sorted_wrt (\<lambda>r s. r ! 0 < s ! 0 \<or> (r ! 0 = s ! 0 \<and> r ! 1 \<le> s ! 1)) (rows tbl)"
proof -
  let ?key = "\<lambda>r::Row. map (\<lambda>c. r ! c) [0, 1]"
  let ?added = "concat (map (\<lambda>(provisioner, provPlans).
        map (\<lambda>p. [VolumePlan.Name p, provisioner,
                   (case sort (map (\<lambda>(k, v). k @ '': '' @ Sprintf_v env v)
                                (VolumePlan.Opts p)) of
                      [] \<Rightarrow> []
                    | opt # opts \<Rightarrow> opt @ concat (map (\<lambda>o'. ''\<newline>'' @ o') opts))])
          provPlans) plans)"
  let ?tbl = "\<lparr>Headers = [''Plan'', ''Provisioner'', ''Opts''], LineSeparator = True,
        rows = sort_key ?key ?added\<rparr>"
  have cell: "plan_opts_cell env p =
      (case sort (map (\<lambda>(k, v). k @ '': '' @ Sprintf_v env v) (VolumePlan.Opts p)) of
         [] \<Rightarrow> []
       | opt # opts \<Rightarrow> opt @ concat (map (\<lambda>o'. ''\<newline>'' @ o') opts))" for p
    unfolding plan_opts_cell_eq by (rule Join_concat)
  have render: "VolumePlansList_render env plans = ([TableString ?tbl], None)"
    unfolding VolumePlansList_render_eq cell by (rule refl)
  have "sorted (map ?key (sort_key ?key ?added))"
    by (rule sorted_sort_key)
  then have ordered:
    "sorted_wrt (\<lambda>r s. r ! 0 < s ! 0 \<or> (r ! 0 = s ! 0 \<and> r ! 1 \<le> s ! 1)) (rows ?tbl)"
    by (simp only: sorted_by_two_columns Table.simps)
  have added: "mset (rows ?tbl) = mset ?added"
    by simp
  have "VolumePlansList_render env plans = ([TableString ?tbl], None) \<and>
     Headers ?tbl = [''Plan'', ''Provisioner'', ''Opts''] \<and> LineSeparator ?tbl \<and>
     mset (rows ?tbl) = mset ?added \<and>
     sorted_wrt (\<lambda>r s. r ! 0 < s ! 0 \<or> (r ! 0 = s ! 0 \<and> r ! 1 \<le> s ! 1)) (rows ?tbl)"
    using render ordered added by (intro conjI) simp_all
  then show ?thesis by (rule exI)
qed

theorem VolumePlansList_render_table_witness:
  "VolumePlansList_render ex_env ex_plans =
     ([TableString \<lparr>Headers = [''Plan'', ''Provisioner'', ''Opts''], LineSeparator = True,
         rows = [[''ebs'', ''kubernetes'', ''''],
                 [''nfs'', ''docker'', ''size: 10''],
                 [''nfs'', ''kubernetes'', ''access: rwx\<newline>size: 10'']]\<rparr>], None)"
proof -
  let ?R = "\<lambda>r s::Row. r ! 0 < s ! 0 \<or> (r ! 0 = s ! 0 \<and> r ! 1 \<le> s ! 1)"
  let ?expected = "[[''ebs'', ''kubernetes'', ''''],
                 [''nfs'', ''docker'', ''size: 10''],
                 [''nfs'', ''kubernetes'', ''access: rwx\<newline>size: 10'']]"
  from VolumePlansList_render_table [of ex_env ex_plans]
  obtain tbl where t: "VolumePlansList_render ex_env ex_plans = ([TableString tbl], None)"
    "Headers tbl = [''Plan'', ''Provisioner'', ''Opts'']" "LineSeparator tbl"
    "mset (rows tbl) = mset (concat (map (\<lambda>(provisioner, provPlans).
        map (\<lambda>p. [VolumePlan.Name p, provisioner,
                   (case sort (map (\<lambda>(k, v). k @ '': '' @ Sprintf_v ex_env v)
                                (VolumePlan.Opts p)) of
                      [] \<Rightarrow> []
                    | opt # opts \<Rightarrow> opt @ concat (map (\<lambda>o'. ''\<newline>'' @ o') opts))])
          provPlans) ex_plans))"
    "sorted_wrt ?R (rows tbl)"
    by blast
  have fmt: "Sprintf_v ex_env = (\<lambda>v. v)"
    by (simp add: ex_env_def)
  have "mset (rows tbl) =
      mset [[''nfs'', ''kubernetes'', ''access: rwx\<newline>size: 10''],
            [''ebs'', ''kubernetes'', ''''],
            [''nfs'', ''docker'', ''size: 10'']]"
    unfolding t(4) fmt ex_plans_def by (simp add: ex_sorted_opts)
  also have "\<dots> = mset ?expected"
    by (simp add: add_mset_commute)
  finally have m: "mset (rows tbl) = mset ?expected" .
  have s: "sorted_wrt ?R ?expected"
    by simp
  have anti: "a = b" if "a \<in> set ?expected" "b \<in> set ?expected" "?R a b" "?R b a" for a b
    using that
    apply (simp only: list.set insert_iff empty_iff simp_thms)
    apply (elim disjE; simp)
    done
  have "rows tbl = ?expected"
    using m t(5) s anti by (rule sorted_wrt_mset_unique)
  with t(2,3) have "tbl = \<lparr>Headers = [''Plan'', ''Provisioner'', ''Opts''], LineSeparator = True,
         rows = ?expected\<rparr>"
    by (intro Table_eqI) simp_all
  with t(1) show ?thesis by simp
qed

text \<open>
  C8. The info view writes the summary of Name, Plan, Pool and Team, then under
  \<open>Binds:\<close> a table with one row per bind in the order of the binds, whose Mode is \<open>ro\<close>
  for a read-only bind and \<open>rw\<close> otherwise, then under \<open>Plan Opts:\<close> and \<open>Opts:\<close> the
  tables of the plan's and the volume's options, sorted by Key. It returns no error, and
  a volume without binds, or with an empty option map, gets the table with its headers
  and no rows.
\<close>

theorem VolumeInfo_render_view:
  "\<exists>bindTable planOptsTable optsTable.
     VolumeInfo_render env volume =
       ([Text (''Name: '' @ Volume.Name volume @ ''\<newline>Plan: ''
               @ VolumePlan.Name (Plan volume) @ ''\<newline>Pool: '' @ Pool volume
               @ ''\<newline>Team: '' @ TeamOwner volume @ ''\<newline>''),
         Text ''\<newline>Binds:\<newline>'', TableString bindTable,
         Text ''\<newline>Plan Opts:\<newline>'', TableString planOptsTable,
         Text ''\<newline>Opts:\<newline>'', TableString optsTable], None) \<and>
     Headers bindTable = [''App'', ''MountPoint'', ''Mode''] \<and>
     rows bindTable =
       map (\<lambda>b. [App (ID b), MountPoint (ID b), if ReadOnly b then ''ro'' else ''rw''])
         (Binds volume) \<and>
     Headers planOptsTable = [''Key'', ''Value''] \<and>
     mset (rows planOptsTable) =
       mset (map (\<lambda>(k, v). [k, Sprintf_v env v]) (VolumePlan.Opts (Plan volume))) \<and>
     sorted (map (\<lambda>r. r ! 0) (rows planOptsTable)) \<and>
     Headers optsTable = [''Key'', ''Value''] \<and>
     mset (rows optsTable) = mset (map (\<lambda>(k, v). [k, v]) (Volume.Opts volume)) \<and>
     sorted (map (\<lambda>r. r ! 0) (rows optsTable)) \<and>
     (Binds volume = [] \<longrightarrow> rows bindTable = []) \<and>
     (VolumePlan.Opts (Plan volume) = [] \<longrightarrow> rows planOptsTable = []) \<and>
     (Volume.Opts volume = [] \<longrightarrow> rows optsTable = [])"
proof -
  let ?binds = "map (\<lambda>b. [App (ID b), MountPoint (ID b), if ReadOnly b then ''ro'' else ''rw''])
                  (Binds volume)"
  let ?planOpts = "sort (map (\<lambda>(k, v). [k, Sprintf_v env v]) (VolumePlan.Opts (Plan volume)))"
  let ?opts = "sort (map (\<lambda>(k, v). [k, v]) (Volume.Opts volume))"
  have p: "sorted (map (\<lambda>r. r ! 0) ?planOpts)"
    by (rule sorted_rows_first_column) auto
  have q: "sorted (map (\<lambda>r. r ! 0) ?opts)"
    by (rule sorted_rows_first_column) auto
  show ?thesis
    unfolding VolumeInfo_render_eq
    by (intro exI [of _ "\<lparr>Headers = [''App'', ''MountPoint'', ''Mode''], LineSeparator = True,
                           rows = ?binds\<rparr>"]
              exI [of _ "\<lparr>Headers = [''Key'', ''Value''], LineSeparator = True,
                           rows = ?planOpts\<rparr>"]
              exI [of _ "\<lparr>Headers = [''Key'', ''Value''], LineSeparator = True,
                           rows = ?opts\<rparr>"])
       (simp add: p q)
qed

theorem VolumeInfo_render_view_witness:
  "Binds ex_data1 = [] \<and> VolumePlan.Opts (Plan ex_data1) = [] \<and> Volume.Opts ex_data1 = [] \<and>
   (\<exists>bindTable planOptsTable optsTable.
      VolumeInfo_render ex_env ex_data1 =
       ([Text ''Name: data1\<newline>Plan: nfs\<newline>Pool: p1\<newline>Team: t1\<newline>'',
         Text ''\<newline>Binds:\<newline>'', TableString bindTable,
         Text ''\<newline>Plan Opts:\<newline>'', TableString planOptsTable,
         Text ''\<newline>Opts:\<newline>'', TableString optsTable], None) \<and>
      Headers bindTable = [''App'', ''MountPoint'', ''Mode''] \<and> rows bindTable = [] \<and>
      Headers planOptsTable = [''Key'', ''Value''] \<and> rows planOptsTable = [] \<and>
      Headers optsTable = [''Key'', ''Value''] \<and> rows optsTable = [])"
proof -
  have e: "Binds ex_data1 = []" "VolumePlan.Opts (Plan ex_data1) = []"
    "Volume.Opts ex_data1 = []"
    by (simp_all add: ex_data1_def)
  have f: "Volume.Name ex_data1 = ''data1''" "VolumePlan.Name (Plan ex_data1) = ''nfs''"
    "Pool ex_data1 = ''p1''" "TeamOwner ex_data1 = ''t1''"
    by (simp_all add: ex_data1_def)
  from VolumeInfo_render_view [of ex_env ex_data1] e show ?thesis
    unfolding f by (simp only: simp_thms append.simps) blast
qed

subsection \<open>The handlers\<close>

text \<open>
  C3, as stated, fails: the list handler filters the decoded volumes before it renders
  them, in every output mode. With the criteria of \<open>ex_filter\<close> and a response that
  decodes to \<open>data1\<close> and \<open>data2\<close>, the JSON output holds \<open>data1\<close> only, not the decoded
  list.
\<close>

theorem VolumeList_Run_json_unfiltered_counterexample:
  "\<not> simplified ex_json_list \<and> VolumeList.json ex_json_list \<and>
   client_Do ex_env ex_list_request = Inr \<lparr>StatusCode = 200, Body = Inr ''(body)''\<rparr> \<and>
   Unmarshal_Volumes ex_env ''(body)'' = Inr [ex_data1, ex_data2] \<and>
   Stdout (VolumeList_Run ex_env ex_json_list) = [JSON (Volumes [ex_data1])] \<and>
   Stdout (VolumeList_Run ex_env ex_json_list) \<noteq> [JSON (Volumes [ex_data1, ex_data2])]"
proof -
  have run: "Stdout (VolumeList_Run ex_env ex_json_list) = [JSON (Volumes [ex_data1])]"
    using VolumeList_Run_decoded [OF ex_env_list_exchange(1,2,3) _ _ ex_env_list_exchange(4)]
    by (simp add: ex_env_render_json clientSideFilter_filter ex_json_list_filter
        ex_insert_data1 ex_insert_data2)
  have flags: "\<not> simplified ex_json_list" "VolumeList.json ex_json_list"
    by (simp_all add: ex_json_list_def)
  from run flags ex_env_list_exchange(3,4) show ?thesis by simp
qed

text \<open>
  C3, amended. When the list command runs in JSON mode (\<open>json\<close> set, \<open>simplified\<close> not
  set) and the response is decoded, the value printed as JSON is the decoded list after
  the client-side filter: the volumes that match the criteria, in their decoded order.
  It is the whole decoded list when every decoded volume matches, in particular when all
  four criteria are empty.
\<close>

theorem VolumeList_Run_json_filtered:
  assumes "GetURLVersion env ''1.4''
             (''/volumes?'' @ Values_Encode env (fst (queryString (filter_v c)))) = Inr u"
    and "NewRequest env ''GET'' u None = Inr request"
    and "client_Do env request = Inr rsp"
    and "StatusCode rsp \<noteq> 204"
    and "Body rsp = Inr data"
    and "Unmarshal_Volumes env data = Inr volumes"
    and "\<not> simplified c" and "VolumeList.json c"
  shows "Stdout (VolumeList_Run env c) =
           [JSON (Volumes (filter (clientSideFilter_insert (filter_v c)) volumes))] \<and>
         ((\<forall>v \<in> set volumes. clientSideFilter_insert (filter_v c) v) \<longrightarrow>
            Stdout (VolumeList_Run env c) = [JSON (Volumes volumes)]) \<and>
         (name (filter_v c) = [] \<and> pool (filter_v c) = [] \<and> plan (filter_v c) = [] \<and>
          teamOwner (filter_v c) = [] \<longrightarrow>
            Stdout (VolumeList_Run env c) = [JSON (Volumes volumes)])"
proof -
  have out: "Stdout (VolumeList_Run env c) =
           [JSON (Volumes (filter (clientSideFilter_insert (filter_v c)) volumes))]"
    using VolumeList_Run_decoded [OF assms(1-6)] assms(7,8)
    by (simp add: VolumeList_render_def formatter_JSON_def clientSideFilter_filter)
  have all: "filter (clientSideFilter_insert (filter_v c)) volumes = volumes"
    if "\<forall>v \<in> set volumes. clientSideFilter_insert (filter_v c) v"
    using that by (simp add: filter_id_conv)
  have empty: "clientSideFilter_insert (filter_v c) v"
    if "name (filter_v c) = [] \<and> pool (filter_v c) = [] \<and> plan (filter_v c) = [] \<and>
        teamOwner (filter_v c) = []" for v :: "'a Volume"
    using that by (simp add: clientSideFilter_insert_iff)
  from out all empty show ?thesis by simp
qed

theorem VolumeList_Run_json_filtered_witness:
  "Stdout (VolumeList_Run ex_env ex_json_list) = [JSON (Volumes [ex_data1])]"
proof -
  have flags: "\<not> simplified ex_json_list" "VolumeList.json ex_json_list"
    by (simp_all add: ex_json_list_def)
  have "StatusCode \<lparr>StatusCode = 200, Body = Inr ''(body)''\<rparr> \<noteq> 204"
    "Body \<lparr>StatusCode = 200, Body = Inr ''(body)''\<rparr> = Inr ''(body)''"
    by simp_all
  from VolumeList_Run_json_filtered [OF ex_env_list_exchange(1,2,3) this
      ex_env_list_exchange(4) flags, THEN conjunct1]
  show ?thesis
    by (simp add: ex_json_list_filter ex_insert_data1 ex_insert_data2)
qed

text \<open>
  C4. When the server answers the request of the list command, or of the info command,
  with status 204, the handler writes exactly \<open>No volumes available.\<close> and a newline,
  prints no table, makes no call other than the request itself (the body is not read and
  the JSON decoder is not called), and returns no error.
\<close>

theorem no_content_message:
  "(GetURLVersion env ''1.4''
      (''/volumes?'' @ Values_Encode env (fst (queryString (filter_v c)))) = Inr u \<and>
    NewRequest env ''GET'' u None = Inr request \<and>
    client_Do env request = Inr rsp \<and> StatusCode rsp = 204 \<longrightarrow>
      VolumeList_Run env c =
        \<lparr>Stdout = [Text ''No volumes available.\<newline>''],
         Calls = [Call_Do request], Err = None\<rparr>) \<and>
   (GetURLVersion env ''1.4'' (''/volumes/'' @ volumeName) = Inr u' \<and>
    NewRequest env ''GET'' u' None = Inr request' \<and>
    client_Do env request' = Inr rsp' \<and> StatusCode rsp' = 204 \<longrightarrow>
      VolumeInfo_Run env ci volumeName =
        \<lparr>Stdout = [Text ''No volumes available.\<newline>''],
         Calls = [Call_Do request'], Err = None\<rparr>)"
  using VolumeList_Run_no_content [of env c u request rsp]
    VolumeInfo_Run_no_content [of env volumeName u' request' rsp' ci]
  by blast

theorem no_content_message_witness:
  "VolumeList_Run ex_no_content_env ex_json_list =
     \<lparr>Stdout = [Text ''No volumes available.\<newline>''],
      Calls = [Call_Do \<lparr>Method = ''GET'',
         URL = ''http://tsuru.example/1.4/volumes?name=ata&plan=nfs&pool=p1&teamOwner=t1'',
         ReqBody = None\<rparr>],
      Err = None\<rparr> \<and>
   VolumeInfo_Run ex_no_content_env ex_info ''data1'' =
     \<lparr>Stdout = [Text ''No volumes available.\<newline>''],
      Calls = [Call_Do \<lparr>Method = ''GET'', URL = ''http://tsuru.example/1.4/volumes/data1'',
         ReqBody = None\<rparr>],
      Err = None\<rparr>"
proof -
  have enc: "Values_Encode ex_no_content_env = ex_Encode"
    by (simp add: ex_no_content_env_def ex_env_def)
  have path: "''/volumes?'' @ Values_Encode ex_no_content_env
        (fst (queryString (filter_v ex_json_list))) =
      ''/volumes?name=ata&plan=nfs&pool=p1&teamOwner=t1''"
    by (simp only: enc ex_json_list_filter ex_list_path)
  have s: "StatusCode \<lparr>StatusCode = 204, Body = Inl (Error ''EOF'')\<rparr> = 204"
    by simp
  have u: "GetURLVersion ex_no_content_env ''1.4''
      ''/volumes?name=ata&plan=nfs&pool=p1&teamOwner=t1'' =
      Inr ''http://tsuru.example/1.4/volumes?name=ata&plan=nfs&pool=p1&teamOwner=t1''"
    "GetURLVersion ex_no_content_env ''1.4'' (''/volumes/'' @ ''data1'') =
      Inr ''http://tsuru.example/1.4/volumes/data1''"
    by (simp_all add: ex_no_content_env_exchange)
  note inst = no_content_message [of ex_no_content_env ex_json_list
      "''http://tsuru.example/1.4/volumes?name=ata&plan=nfs&pool=p1&teamOwner=t1''"
      "\<lparr>Method = ''GET'',
         URL = ''http://tsuru.example/1.4/volumes?name=ata&plan=nfs&pool=p1&teamOwner=t1'',
         ReqBody = None\<rparr>"
      "\<lparr>StatusCode = 204, Body = Inl (Error ''EOF'')\<rparr>"
      "''data1''" "''http://tsuru.example/1.4/volumes/data1''"
      "\<lparr>Method = ''GET'', URL = ''http://tsuru.example/1.4/volumes/data1'',
         ReqBody = None\<rparr>"
      "\<lparr>StatusCode = 204, Body = Inl (Error ''EOF'')\<rparr>" ex_info]
  show ?thesis
    using inst unfolding path
    by (simp only: u ex_no_content_env_exchange(2,3) s simp_thms)
qed

text \<open>
  C10. When the server answers the request of the plan-list command with status 204, the
  handler neither reads the body nor calls the JSON decoder and writes no message: it
  prints the table with the headers Plan, Provisioner and Opts and no rows, and returns
  no error.
\<close>

theorem VolumePlansList_Run_no_content_table:
  "GetURLVersion env ''1.4'' ''/volumeplans'' = Inr u \<Longrightarrow>
   NewRequest env ''GET'' u None = Inr request \<Longrightarrow>
   client_Do env request = Inr rsp \<Longrightarrow> StatusCode rsp = 204 \<Longrightarrow>
   VolumePlansList_Run env =
     \<lparr>Stdout = [TableString \<lparr>Headers = [''Plan'', ''Provisioner'', ''Opts''],
         LineSeparator = True, rows = []\<rparr>],
      Calls = [Call_Do request], Err = None\<rparr>"
  by (rule VolumePlansList_Run_no_content)

theorem VolumePlansList_Run_no_content_table_witness:
  "VolumePlansList_Run ex_no_content_env =
     \<lparr>Stdout = [TableString \<lparr>Headers = [''Plan'', ''Provisioner'', ''Opts''],
         LineSeparator = True, rows = []\<rparr>],
      Calls = [Call_Do \<lparr>Method = ''GET'', URL = ''http://tsuru.example/1.4/volumeplans'',
         ReqBody = None\<rparr>],
      Err = None\<rparr>"
proof -
  have u: "GetURLVersion ex_no_content_env ''1.4'' ''/volumeplans'' =
      Inr ''http://tsuru.example/1.4/volumeplans''"
    by (simp add: ex_no_content_env_exchange)
  have s: "StatusCode \<lparr>StatusCode = 204, Body = Inl (Error ''EOF'')\<rparr> = 204"
    by simp
  show ?thesis
    by (rule VolumePlansList_Run_no_content_table
        [OF u ex_no_content_env_exchange(2) ex_no_content_env_exchange(3) s])
qed

end
